theory Spec2Isabelle
  imports Complex_Main "HOL-Library.Sublist"
begin

section \<open>Data model\<close>

text \<open>
  The alert evaluation route of PolyTrack (the cron handler \<open>POST\<close> and its helpers) and
  the market snapshot type of \<open>lib/polymarket\<close>.

  JavaScript numbers are modelled as \<^typ>\<open>real\<close>: the comparisons and the one product
  \<open>previousVolume * 1.2\<close> are exact here, rounding, \<open>NaN\<close> and the infinities of IEEE doubles
  are outside the model. JavaScript strings are \<^typ>\<open>string\<close>; string-typed unions
  (\<open>'PRESET' | 'CUSTOM'\<close>, \<open>'gt' | 'lt'\<close>, ...) stay strings, because the rows come out of
  the database as JSON and the code compares them with \<open>===\<close> and has a fall-through branch
  for every other value. A value that may be \<open>null\<close> or \<open>undefined\<close> is an \<open>option\<close>.
  Fields keep their names, with a prefix where the name is taken already: \<open>id\<close>, \<open>type\<close>,
  \<open>operator\<close> and \<open>value\<close> are \<open>alert_id\<close> and \<open>outcome_id\<close>, \<open>alert_type\<close>,
  \<open>cond_operator\<close> and \<open>rule_operator\<close>, \<open>cond_value\<close>.
\<close>

record AlertCondition =
  metric :: string
  cond_operator :: string
  cond_value :: real

record AlertRule =
  rule_operator :: string
  conditions :: "AlertCondition list"

record AlertRow =
  alert_id :: string
  user_id :: string
  market_slug :: string
  alert_type :: string
  preset_type :: "string option"
  custom_settings :: "AlertRule option"
  last_triggered_at :: "string option"

record MarketOutcome =
  outcome_id :: string
  label :: string
  price :: real
  probability :: real
  volume :: real

record MarketData =
  slug :: string
  title :: string
  totalVolume :: real
  outcomes :: "MarketOutcome list"
  favoriteOutcomeId :: "string option"

text \<open>
  A thrown \<open>Error\<close> or the reason of a rejected promise is its message. A promise is
  modelled by its settled result, \<^term>\<open>Inl e\<close> when it rejects: the handler awaits every
  promise right where it gets it, one alert after the other.
\<close>

type_synonym exn = string

record email =
  email_from :: string
  email_to :: string
  subject :: string
  html :: string

text \<open>The \<open>{ data, error }\<close> objects the database client resolves to: of
  \<open>auth.admin.getUserById\<close> (with \<open>data?.user?.email\<close>) and of \<open>from('alerts').select('*')\<close>.\<close>

record user_response =
  user_email :: "string option"
  user_error :: "string option"

record select_response =
  select_data :: "AlertRow list option"
  select_error :: "string option"

record request =
  authorization :: "string option"

datatype response = UNAUTHORIZED | CRON_FAILED | success nat

text \<open>
  The state of the module: its four module-level maps, and a trace of every call that leaves
  the module (database query, market fetch, user lookup, mail dispatch, timestamp update,
  \<open>console.error\<close>), so that "no call was made" can be stated.
  \<open>favoriteOutcomeCache\<close> is a \<open>Map<string, string | null>\<close>: a key can be missing (\<open>get\<close>
  gives \<open>undefined\<close>, here \<^term>\<open>None\<close>), or present with the value \<open>null\<close>
  (\<^term>\<open>Some None\<close>) or an identifier.
\<close>

record state =
  marketCache :: "string \<rightharpoonup> exn + MarketData"
  favoriteOutcomeCache :: "string \<rightharpoonup> string option"
  volumeCache :: "string \<rightharpoonup> real"
  userEmailCache :: "string \<rightharpoonup> exn + string option"
  selectCalls :: nat
  marketCalls :: "string list"
  userCalls :: "string list"
  sendCalls :: "email list"
  updateCalls :: "string list"
  consoleErrors :: "string list list"

text \<open>
  What lies outside the module, taken as parameters: the configured secret, and the
  collaborators (\<open>getMarketData\<close> is the HTTP request of \<open>lib/polymarket\<close>). A collaborator may answer differently each time it is asked, so each takes
  the number of calls made to it before; it rejects (\<^term>\<open>Inl e\<close>) or resolves. The mail
  client and the timestamp update resolve to an object whose \<open>error\<close> field may be set.
  \<open>buildEmailHtml\<close> formats numbers with \<open>toFixed\<close> and \<open>toLocaleString\<close> and stays a
  parameter.
\<close>

record env =
  CRON_SECRET :: "string option"
  alertsSelect :: "nat \<Rightarrow> exn + select_response"
  getMarketData :: "nat \<Rightarrow> string \<Rightarrow> exn + MarketData"
  getUserById :: "nat \<Rightarrow> string \<Rightarrow> exn + user_response"
  emailsSend :: "nat \<Rightarrow> email \<Rightarrow> exn + string option"
  alertsUpdate :: "nat \<Rightarrow> string \<Rightarrow> exn + string option"
  buildEmailHtml :: "AlertRow \<Rightarrow> MarketData \<Rightarrow> string"

section \<open>Condition evaluator\<close>

text \<open>\<open>!x\<close> on a \<open>string | null | undefined\<close>: true for null, undefined and the empty string.\<close>

definition truthy :: "string option \<Rightarrow> bool" where
  "truthy x = (case x of None \<Rightarrow> False | Some s \<Rightarrow> s \<noteq> [])"

text \<open>The local \<open>metricValue\<close> of \<open>evaluateCondition\<close> after its \<open>switch\<close>, with
  \<open>primaryOutcome = market.outcomes[0]\<close> undefined on an empty array and
  \<open>primaryOutcome?.f ?? 0\<close>.\<close>

definition metricValue :: "AlertCondition \<Rightarrow> MarketData \<Rightarrow> real" where
  "metricValue condition market =
     (if metric condition = ''volume'' then totalVolume market
      else if metric condition = ''probability'' then
        (case outcomes market of [] \<Rightarrow> 0 | primaryOutcome # _ \<Rightarrow> probability primaryOutcome)
      else if metric condition = ''price'' then
        (case outcomes market of [] \<Rightarrow> 0 | primaryOutcome # _ \<Rightarrow> price primaryOutcome)
      else 0)"

definition evaluateCondition :: "AlertCondition \<Rightarrow> MarketData \<Rightarrow> bool" where
  "evaluateCondition condition market =
     (if cond_operator condition = ''gt''
      then metricValue condition market > cond_value condition
      else metricValue condition market < cond_value condition)"

text \<open>\<open>every\<close> and \<open>some\<close> of a JavaScript array are \<^const>\<open>list_all\<close> and \<^const>\<open>list_ex\<close>.
  \<open>!rule.conditions?.length\<close> is true on the empty array (the declared type
  \<open>AlertCondition[]\<close> has no absent array).\<close>

definition evaluateCustomRule :: "AlertRule \<Rightarrow> MarketData \<Rightarrow> bool" where
  "evaluateCustomRule rule market =
     (if length (conditions rule) = 0 then False
      else if rule_operator rule = ''AND''
        then list_all (\<lambda>condition. evaluateCondition condition market) (conditions rule)
        else list_ex (\<lambda>condition. evaluateCondition condition market) (conditions rule))"

text \<open>The presets read the previous observation, write the current one and return the
  verdict; the state is passed in and returned. \<open>??\<close> falls back on \<open>undefined\<close> (no entry)
  only, so a stored volume of 0 is used as it is. In \<open>evaluateFlipPreset\<close> a missing entry
  and a stored \<open>null\<close> are both falsy, and \<open>!==\<close> is reached with two non-empty strings
  only.\<close>

definition evaluateWhalePreset :: "state \<Rightarrow> string \<Rightarrow> MarketData \<Rightarrow> state \<times> bool" where
  "evaluateWhalePreset st alertId market =
     (let previousVolume = (case volumeCache st alertId of
                              None \<Rightarrow> totalVolume market | Some v \<Rightarrow> v);
          volumeSpike = (totalVolume market > previousVolume * 1.2);
          simulatedLargeTrade = list_ex (\<lambda>outcome. volume outcome \<ge> 10000) (outcomes market);
          st' = st\<lparr>volumeCache := (volumeCache st)(alertId \<mapsto> totalVolume market)\<rparr>
      in (st', volumeSpike \<or> simulatedLargeTrade))"

definition evaluateFlipPreset :: "state \<Rightarrow> string \<Rightarrow> MarketData \<Rightarrow> state \<times> bool" where
  "evaluateFlipPreset st alertId market =
     (let currentFavorite = favoriteOutcomeId market;
          previousFavorite = (case favoriteOutcomeCache st alertId of
                                None \<Rightarrow> None | Some stored \<Rightarrow> stored);
          st' = st\<lparr>favoriteOutcomeCache := (favoriteOutcomeCache st)(alertId \<mapsto> currentFavorite)\<rparr>
      in if \<not> truthy currentFavorite \<or> \<not> truthy previousFavorite then (st', False)
         else (st', currentFavorite \<noteq> previousFavorite))"

definition evaluateAlert :: "state \<Rightarrow> AlertRow \<Rightarrow> MarketData \<Rightarrow> state \<times> bool" where
  "evaluateAlert st alert market =
     (if alert_type alert = ''PRESET'' then
        (if preset_type alert = Some ''WHALE'' then evaluateWhalePreset st (alert_id alert) market
         else if preset_type alert = Some ''FLIP'' then evaluateFlipPreset st (alert_id alert) market
         else (st, False))
      else (case custom_settings alert of
              None \<Rightarrow> (st, False)
            | Some rule \<Rightarrow> (st, evaluateCustomRule rule market)))"

section \<open>Authorization\<close>

text \<open>
  \<open>String.prototype.replace\<close> with a string pattern replaces the first occurrence only;
  the replacement here is the empty string, so no \<open>$\<close> pattern is involved.
  \<open>String.prototype.trim\<close> removes white space and line terminators at both ends. A header
  value read through \<open>Headers.get\<close> is a byte string, one \<^typ>\<open>char\<close> per code unit, and the
  white space among those is TAB, LF, VT, FF, CR, SP and NBSP.
\<close>

fun js_replace :: "string \<Rightarrow> string \<Rightarrow> string \<Rightarrow> string" where
  "js_replace [] pat rep = (if pat = [] then rep else [])"
| "js_replace (c # cs) pat rep =
     (if prefix pat (c # cs) then rep @ drop (length pat) (c # cs)
      else c # js_replace cs pat rep)"

definition js_whitespace :: "char \<Rightarrow> bool" where
  "js_whitespace c = ((of_char c :: nat) \<in> {9, 10, 11, 12, 13, 32, 160})"

definition js_trim :: "string \<Rightarrow> string" where
  "js_trim s = rev (dropWhile js_whitespace (rev (dropWhile js_whitespace s)))"

text \<open>\<open>secret?.replace('Bearer ', '').trim()\<close> is \<open>undefined\<close> on a missing header, and
  \<open>undefined === expectedSecret\<close> is false. \<open>!expectedSecret\<close> holds for an unset and for an
  empty variable.\<close>

definition isCronAuthorized :: "env \<Rightarrow> request \<Rightarrow> exn + bool" where
  "isCronAuthorized env req =
     (let secret = authorization req; expectedSecret = CRON_SECRET env
      in if \<not> truthy expectedSecret then Inl ''CRON_SECRET env variable missing''
         else let token = map_option (\<lambda>h. js_trim (js_replace h ''Bearer '' [])) secret
              in Inr (token = expectedSecret))"

section \<open>Market snapshot cache and recipient resolver\<close>

text \<open>A stored promise is an object, so \<open>if (cached)\<close> holds exactly when the key is in the
  map, also when the promise has rejected.\<close>

definition fetchMarket :: "env \<Rightarrow> state \<Rightarrow> string \<Rightarrow> state \<times> (exn + MarketData)" where
  "fetchMarket env st slug' =
     (case marketCache st slug' of
        Some cached \<Rightarrow> (st, cached)
      | None \<Rightarrow>
          (let promise = getMarketData env (length (marketCalls st)) slug'
           in (st\<lparr>marketCache := (marketCache st)(slug' \<mapsto> promise),
                   marketCalls := marketCalls st @ [slug']\<rparr>, promise)))"

definition resolveUserEmail :: "env \<Rightarrow> state \<Rightarrow> string \<Rightarrow> state \<times> (exn + string option)" where
  "resolveUserEmail env st userId =
     (case userEmailCache st userId of
        Some cached \<Rightarrow> (st, cached)
      | None \<Rightarrow>
          (let st1 = st\<lparr>userCalls := userCalls st @ [userId]\<rparr>
           in case getUserById env (length (userCalls st)) userId of
                Inl e \<Rightarrow> (st1\<lparr>userEmailCache := (userEmailCache st)(userId \<mapsto> Inl e)\<rparr>, Inl e)
              | Inr r \<Rightarrow>
                  (case user_error r of
                     Some err \<Rightarrow>
                       (st1\<lparr>userEmailCache := (userEmailCache st)(userId \<mapsto> Inr None),
                            consoleErrors := consoleErrors st @ [[''Unable to fetch user email'', err]]\<rparr>,
                        Inr None)
                   | None \<Rightarrow>
                       (st1\<lparr>userEmailCache := (userEmailCache st)(userId \<mapsto> Inr (user_email r))\<rparr>,
                        Inr (user_email r)))))"

section \<open>Batch orchestrator\<close>

definition fetchActiveAlerts :: "env \<Rightarrow> state \<Rightarrow> state \<times> (exn + AlertRow list)" where
  "fetchActiveAlerts env st =
     (st\<lparr>selectCalls := Suc (selectCalls st)\<rparr>,
      case alertsSelect env (selectCalls st) of
        Inl e \<Rightarrow> Inl e
      | Inr r \<Rightarrow>
          (case select_error r of
             Some err \<Rightarrow> Inl err
           | None \<Rightarrow> Inr (case select_data r of None \<Rightarrow> [] | Some rows \<Rightarrow> rows)))"

definition buildEmailSubject :: "AlertRow \<Rightarrow> MarketData \<Rightarrow> string" where
  "buildEmailSubject alert market =
     (if alert_type alert = ''PRESET'' \<and> truthy (preset_type alert)
      then ''PolyTrack '' @ (case preset_type alert of Some p \<Rightarrow> p | None \<Rightarrow> []) @
           '' alert for '' @ title market
      else ''PolyTrack custom alert for '' @ title market)"

text \<open>\<open>await resendClient.emails.send(...)\<close>: the call is made, a rejection is thrown on, the
  value it resolves to is dropped.\<close>

definition sendEmail :: "env \<Rightarrow> state \<Rightarrow> email \<Rightarrow> state \<times> (exn + unit)" where
  "sendEmail env st mail =
     (st\<lparr>sendCalls := sendCalls st @ [mail]\<rparr>,
      case emailsSend env (length (sendCalls st)) mail of
        Inl e \<Rightarrow> Inl e
      | Inr _ \<Rightarrow> Inr ())"

text \<open>The timestamp written is \<open>new Date().toISOString()\<close>; the trace keeps the alert the
  update is for.\<close>

definition markAlertTriggered :: "env \<Rightarrow> state \<Rightarrow> string \<Rightarrow> state \<times> (exn + unit)" where
  "markAlertTriggered env st alertId =
     (let st1 = st\<lparr>updateCalls := updateCalls st @ [alertId]\<rparr>
      in case alertsUpdate env (length (updateCalls st)) alertId of
           Inl e \<Rightarrow> (st1, Inl e)
         | Inr None \<Rightarrow> (st1, Inr ())
         | Inr (Some err) \<Rightarrow>
             (st1\<lparr>consoleErrors :=
                    consoleErrors st @ [[''Failed to update alert trigger timestamp'', err]]\<rparr>,
              Inr ()))"

text \<open>The object handed to \<open>resendClient.emails.send\<close>; \<open>recipient\<close> is a non-empty string
  where it is built.\<close>

definition emailMessage :: "env \<Rightarrow> AlertRow \<Rightarrow> MarketData \<Rightarrow> string option \<Rightarrow> email" where
  "emailMessage env alert market recipient =
     \<lparr>email_from = ''PolyTrack Alerts <alerts@polytrack.app>'',
      email_to = (case recipient of Some r \<Rightarrow> r | None \<Rightarrow> []),
      subject = buildEmailSubject alert market,
      html = buildEmailHtml env alert market\<rparr>"

text \<open>
  One turn of the \<open>for\<close> loop of \<open>POST\<close>. The result is \<^term>\<open>Inl e\<close> when an awaited
  promise rejects (the exception leaves the loop), \<^term>\<open>Inr False\<close> on \<open>continue\<close>, and
  \<^term>\<open>Inr True\<close> when the turn reaches \<open>processed += 1\<close>.
\<close>

definition processAlert :: "env \<Rightarrow> state \<Rightarrow> AlertRow \<Rightarrow> state \<times> (exn + bool)" where
  "processAlert env st alert =
     (case fetchMarket env st (market_slug alert) of
        (st1, Inl e) \<Rightarrow> (st1, Inl e)
      | (st1, Inr market) \<Rightarrow>
          (case evaluateAlert st1 alert market of
             (st2, shouldTrigger) \<Rightarrow>
               if \<not> shouldTrigger then (st2, Inr False)
               else
                 (case resolveUserEmail env st2 (user_id alert) of
                    (st3, Inl e) \<Rightarrow> (st3, Inl e)
                  | (st3, Inr recipient) \<Rightarrow>
                      if \<not> truthy recipient then (st3, Inr False)
                      else
                        (case sendEmail env st3 (emailMessage env alert market recipient) of
                           (st4, Inl e) \<Rightarrow> (st4, Inl e)
                         | (st4, Inr _) \<Rightarrow>
                             (case markAlertTriggered env st4 (alert_id alert) of
                                (st5, Inl e) \<Rightarrow> (st5, Inl e)
                              | (st5, Inr _) \<Rightarrow> (st5, Inr True))))))"

fun alertLoop :: "env \<Rightarrow> AlertRow list \<Rightarrow> state \<Rightarrow> nat \<Rightarrow> state \<times> (exn + nat)" where
  "alertLoop env [] st processed = (st, Inr processed)"
| "alertLoop env (alert # rest) st processed =
     (case processAlert env st alert of
        (st', Inl e) \<Rightarrow> (st', Inl e)
      | (st', Inr counted) \<Rightarrow>
          alertLoop env rest st' (if counted then processed + 1 else processed))"

text \<open>
  The handler. \<open>isCronAuthorized\<close> is called before the \<open>try\<close>, so its exception leaves the
  handler (\<^term>\<open>Inl e\<close>); everything thrown inside the \<open>try\<close> is logged and answered with
  \<open>CRON_FAILED\<close>.
\<close>

definition POST :: "env \<Rightarrow> state \<Rightarrow> request \<Rightarrow> state \<times> (exn + response)" where
  "POST env st req =
     (case isCronAuthorized env req of
        Inl e \<Rightarrow> (st, Inl e)
      | Inr False \<Rightarrow> (st, Inr UNAUTHORIZED)
      | Inr True \<Rightarrow>
          (case fetchActiveAlerts env st of
             (st1, Inl e) \<Rightarrow> (st1\<lparr>consoleErrors := consoleErrors st1 @ [[e]]\<rparr>, Inr CRON_FAILED)
           | (st1, Inr alerts) \<Rightarrow>
               if length alerts = 0 then (st1, Inr (success 0))
               else
                 (case alertLoop env alerts st1 0 of
                    (st2, Inl e) \<Rightarrow> (st2\<lparr>consoleErrors := consoleErrors st2 @ [[e]]\<rparr>, Inr CRON_FAILED)
                  | (st2, Inr processed) \<Rightarrow> (st2, Inr (success processed)))))"

text \<open>A sequence of lookups against the two caches, in the order given, with the result of
  each.\<close>

datatype lookup = Fetch string | Resolve string

datatype lookup_result = Market "exn + MarketData" | Recipient "exn + string option"

fun lookups :: "env \<Rightarrow> lookup list \<Rightarrow> state \<Rightarrow> state \<times> lookup_result list" where
  "lookups env [] st = (st, [])"
| "lookups env (Fetch k # rest) st =
     (case fetchMarket env st k of
        (st', r) \<Rightarrow> (case lookups env rest st' of (st'', rs) \<Rightarrow> (st'', Market r # rs)))"
| "lookups env (Resolve k # rest) st =
     (case resolveUserEmail env st k of
        (st', r) \<Rightarrow> (case lookups env rest st' of (st'', rs) \<Rightarrow> (st'', Recipient r # rs)))"

text \<open>
  What memoization means for the calls that leave the module. \<open>fresh\<close> compares the trace of
  calls to one collaborator and its cache before and after: the earlier calls are still
  there, the calls made since are pairwise distinct, none of them is for a key that was
  cached before, and the cache has grown by exactly their keys. \<open>memo_step\<close> says so of both
  collaborators.
\<close>

definition fresh :: "string list \<Rightarrow> (string \<rightharpoonup> 'a) \<Rightarrow> string list \<Rightarrow> (string \<rightharpoonup> 'a) \<Rightarrow> bool" where
  "fresh calls cache calls' cache' =
     (take (length calls) calls' = calls \<and>
      distinct (drop (length calls) calls') \<and>
      set (drop (length calls) calls') \<inter> dom cache = {} \<and>
      dom cache' = dom cache \<union> set (drop (length calls) calls'))"

definition memo_step :: "state \<Rightarrow> state \<Rightarrow> bool" where
  "memo_step st st' =
     (fresh (marketCalls st) (marketCache st) (marketCalls st') (marketCache st') \<and>
      fresh (userCalls st) (userEmailCache st) (userCalls st') (userEmailCache st'))"

section \<open>Outcome identifiers\<close>

text \<open>
  \<open>normalizeOutcome\<close> of \<open>lib/polymarket\<close>, which builds every outcome of a snapshot, and
  with it every identifier a snapshot can name as its favorite. \<open>xs?.[i]\<close> is \<open>at_index\<close>;
  \<open>decimal\<close> is the string a template literal gives for an array index.
\<close>

record GammaMarket =
  gamma_id :: string
  question :: string
  gamma_volume :: "real option"
  gamma_outcomes :: "string list option"
  outcomePrices :: "real list option"
  outcomeVolumes :: "real list option"

definition at_index :: "'a list option \<Rightarrow> nat \<Rightarrow> 'a option" where
  "at_index xs i =
     (case xs of None \<Rightarrow> None | Some ys \<Rightarrow> if i < length ys then Some (ys ! i) else None)"

fun decimal :: "nat \<Rightarrow> string" where
  "decimal n =
     (if n < 10 then [''0123456789'' ! n] else decimal (n div 10) @ [''0123456789'' ! (n mod 10)])"

definition normalizeOutcome :: "GammaMarket \<Rightarrow> nat \<Rightarrow> MarketOutcome" where
  "normalizeOutcome market index =
     (let label' = (case at_index (gamma_outcomes market) index of
                      Some l \<Rightarrow> l | None \<Rightarrow> ''Outcome '' @ decimal (index + 1));
          price' = (case at_index (outcomePrices market) index of Some p \<Rightarrow> p | None \<Rightarrow> 0);
          volume' = (case at_index (outcomeVolumes market) index of Some v \<Rightarrow> v | None \<Rightarrow> 0);
          probability' = price'
      in \<lparr>outcome_id = gamma_id market @ ''-'' @ decimal index, label = label',
          price = price', probability = probability', volume = volume'\<rparr>)"

section \<open>Example inputs\<close>

text \<open>The module as loaded: four empty maps, nothing called yet.\<close>

definition initial_state :: state where
  "initial_state =
     \<lparr>marketCache = Map.empty, favoriteOutcomeCache = Map.empty, volumeCache = Map.empty,
      userEmailCache = Map.empty, selectCalls = 0, marketCalls = [], userCalls = [],
      sendCalls = [], updateCalls = [], consoleErrors = []\<rparr>"

text \<open>A market with total volume 10 whose primary outcome has price 0.05, and the two
  conditions \<open>volume > 500\<close> and \<open>price < 0.1\<close>.\<close>

definition example_market :: MarketData where
  "example_market =
     \<lparr>slug = ''m'', title = ''M'', totalVolume = 10,
      outcomes = [\<lparr>outcome_id = ''m-0'', label = ''Yes'', price = 0.05, probability = 0.05,
                   volume = 6\<rparr>,
                  \<lparr>outcome_id = ''m-1'', label = ''No'', price = 0.95, probability = 0.95,
                   volume = 4\<rparr>],
      favoriteOutcomeId = Some ''m-1''\<rparr>"

text \<open>A market one of whose outcomes has traded 10000.\<close>

definition example_whale_market :: MarketData where
  "example_whale_market =
     \<lparr>slug = ''w'', title = ''W'', totalVolume = 10000,
      outcomes = [\<lparr>outcome_id = ''w-0'', label = ''Yes'', price = 0.5, probability = 0.5,
                   volume = 10000\<rparr>],
      favoriteOutcomeId = Some ''w-0''\<rparr>"

definition example_conditions :: "AlertCondition list" where
  "example_conditions =
     [\<lparr>metric = ''volume'', cond_operator = ''gt'', cond_value = 500\<rparr>,
      \<lparr>metric = ''price'', cond_operator = ''lt'', cond_value = 0.1\<rparr>]"

definition example_rule :: "string \<Rightarrow> AlertRule" where
  "example_rule combinator = \<lparr>rule_operator = combinator, conditions = example_conditions\<rparr>"

definition example_alert :: "AlertRule option \<Rightarrow> AlertRow" where
  "example_alert settings =
     \<lparr>alert_id = ''alert-1'', user_id = ''user-1'', market_slug = ''m'',
      alert_type = ''CUSTOM'', preset_type = None, custom_settings = settings,
      last_triggered_at = None\<rparr>"

text \<open>Collaborators for the examples: the rows the database returns, what the mail client and
  the timestamp update answer, and the address the user directory knows. The market
  collaborator reports a volume that grows with every call made to it.\<close>

definition example_env ::
  "AlertRow list \<Rightarrow> (exn + string option) \<Rightarrow> (exn + string option) \<Rightarrow> string option \<Rightarrow> env" where
  "example_env rows sent updated address =
     \<lparr>CRON_SECRET = Some ''s3cret'',
      alertsSelect = (\<lambda>_. Inr \<lparr>select_data = Some rows, select_error = None\<rparr>),
      getMarketData = (\<lambda>n _. Inr (example_market\<lparr>totalVolume := 10 + of_nat n\<rparr>)),
      getUserById = (\<lambda>_ _. Inr \<lparr>user_email = address, user_error = None\<rparr>),
      emailsSend = (\<lambda>_ _. sent),
      alertsUpdate = (\<lambda>_ _. updated),
      buildEmailHtml = (\<lambda>_ _. [])\<rparr>"

definition example_request :: request where
  "example_request = \<lparr>authorization = Some ''Bearer s3cret''\<rparr>"

definition example_lookups :: "lookup list" where
  "example_lookups = [Fetch ''m'', Resolve ''user-1'', Fetch ''m'', Fetch ''n'', Resolve ''user-1'']"

section \<open>Properties of the condition evaluator\<close>

lemmas example_defs =
  initial_state_def example_market_def example_whale_market_def example_conditions_def
  example_rule_def example_alert_def example_env_def example_request_def

text \<open>
  C3. \<open>evaluateCustomRule\<close> is false on an empty condition list, whatever the combinator;
  on a non-empty list an \<open>AND\<close> rule holds iff every condition holds and an \<open>OR\<close> rule iff
  at least one does; and \<open>evaluateAlert\<close> on a custom alert (any type other than
  \<open>PRESET\<close>) without a rule is false and leaves the state as it is.
\<close>

theorem evaluateCustomRule_and_or:
  "(conditions rule = [] \<longrightarrow> \<not> evaluateCustomRule rule market) \<and>
   (conditions rule \<noteq> [] \<and> rule_operator rule = ''AND'' \<longrightarrow>
      evaluateCustomRule rule market
        = (\<forall>c \<in> set (conditions rule). evaluateCondition c market)) \<and>
   (conditions rule \<noteq> [] \<and> rule_operator rule = ''OR'' \<longrightarrow>
      evaluateCustomRule rule market
        = (\<exists>c \<in> set (conditions rule). evaluateCondition c market)) \<and>
   (alert_type alert \<noteq> ''PRESET'' \<and> custom_settings alert = None \<longrightarrow>
      evaluateAlert st alert market = (st, False))"
  by (simp add: evaluateCustomRule_def evaluateAlert_def list_all_iff list_ex_iff)

text \<open>The rules of the example: the \<open>OR\<close> rule fires through its second condition, the
  \<open>AND\<close> rule fails on its first, rules without conditions never fire.\<close>

theorem evaluateCustomRule_and_or_witness:
  "\<not> evaluateCustomRule \<lparr>rule_operator = ''AND'', conditions = []\<rparr> example_market \<and>
   \<not> evaluateCustomRule \<lparr>rule_operator = ''OR'', conditions = []\<rparr> example_market \<and>
   evaluateCustomRule (example_rule ''OR'') example_market \<and>
   \<not> evaluateCustomRule (example_rule ''AND'') example_market \<and>
   evaluateAlert initial_state (example_alert None) example_market = (initial_state, False)"
  using evaluateCustomRule_and_or
          [of "\<lparr>rule_operator = ''AND'', conditions = []\<rparr>" example_market
              "example_alert None" initial_state]
        evaluateCustomRule_and_or
          [of "\<lparr>rule_operator = ''OR'', conditions = []\<rparr>" example_market
              "example_alert None" initial_state]
        evaluateCustomRule_and_or
          [of "example_rule ''OR''" example_market "example_alert None" initial_state]
        evaluateCustomRule_and_or
          [of "example_rule ''AND''" example_market "example_alert None" initial_state]
  by (simp add: example_rule_def example_conditions_def example_alert_def example_market_def
        evaluateCondition_def metricValue_def)

text \<open>
  C4. \<open>evaluateCondition\<close> resolves the metric \<open>volume\<close> to the total volume,
  \<open>probability\<close> and \<open>price\<close> to that field of the first outcome, or 0 when there is no
  outcome, and every other metric to 0; operator \<open>gt\<close> is strictly greater than the
  threshold, \<open>lt\<close> strictly less, so a value equal to the threshold satisfies neither.
\<close>

theorem evaluateCondition_metric_operator:
  "(metric c = ''volume'' \<longrightarrow> metricValue c m = totalVolume m) \<and>
   (metric c = ''probability'' \<longrightarrow>
      metricValue c m = (case outcomes m of [] \<Rightarrow> 0 | first # _ \<Rightarrow> probability first)) \<and>
   (metric c = ''price'' \<longrightarrow>
      metricValue c m = (case outcomes m of [] \<Rightarrow> 0 | first # _ \<Rightarrow> price first)) \<and>
   (metric c \<notin> {''volume'', ''probability'', ''price''} \<longrightarrow> metricValue c m = 0) \<and>
   (cond_operator c = ''gt'' \<longrightarrow> evaluateCondition c m = (metricValue c m > cond_value c)) \<and>
   (cond_operator c = ''lt'' \<longrightarrow> evaluateCondition c m = (metricValue c m < cond_value c)) \<and>
   (metricValue c m = cond_value c \<longrightarrow> \<not> evaluateCondition c m)"
  by (simp add: metricValue_def evaluateCondition_def)

theorem evaluateCondition_metric_operator_witness:
  "metricValue \<lparr>metric = ''volume'', cond_operator = ''gt'', cond_value = 10\<rparr> example_market = 10 \<and>
   \<not> evaluateCondition \<lparr>metric = ''volume'', cond_operator = ''gt'', cond_value = 10\<rparr> example_market \<and>
   \<not> evaluateCondition \<lparr>metric = ''volume'', cond_operator = ''lt'', cond_value = 10\<rparr> example_market \<and>
   evaluateCondition \<lparr>metric = ''price'', cond_operator = ''lt'', cond_value = 0.1\<rparr> example_market \<and>
   evaluateCondition \<lparr>metric = ''probability'', cond_operator = ''gt'', cond_value = 0.01\<rparr>
     example_market \<and>
   metricValue \<lparr>metric = ''price'', cond_operator = ''gt'', cond_value = 0\<rparr>
     (example_market\<lparr>outcomes := []\<rparr>) = 0 \<and>
   metricValue \<lparr>metric = ''liquidity'', cond_operator = ''gt'', cond_value = 0\<rparr> example_market = 0"
  using evaluateCondition_metric_operator
          [of "\<lparr>metric = ''volume'', cond_operator = ''gt'', cond_value = 10\<rparr>" example_market]
        evaluateCondition_metric_operator
          [of "\<lparr>metric = ''volume'', cond_operator = ''lt'', cond_value = 10\<rparr>" example_market]
        evaluateCondition_metric_operator
          [of "\<lparr>metric = ''price'', cond_operator = ''lt'', cond_value = 0.1\<rparr>" example_market]
        evaluateCondition_metric_operator
          [of "\<lparr>metric = ''probability'', cond_operator = ''gt'', cond_value = 0.01\<rparr>"
              example_market]
        evaluateCondition_metric_operator
          [of "\<lparr>metric = ''price'', cond_operator = ''gt'', cond_value = 0\<rparr>"
              "example_market\<lparr>outcomes := []\<rparr>"]
        evaluateCondition_metric_operator
          [of "\<lparr>metric = ''liquidity'', cond_operator = ''gt'', cond_value = 0\<rparr>" example_market]
  by (simp add: example_market_def)

text \<open>
  C1 (amended). On the first whale evaluation of an alert (no volume stored for it) the
  volume test cannot fire for a snapshot of non-negative total volume, because the previous
  volume defaults to the current one; the large-trade test still applies. The evaluation
  returns true exactly when some outcome of the snapshot has volume 10000 or more.
\<close>

theorem whale_first_observation:
  assumes "volumeCache st alertId = None" and "0 \<le> totalVolume market"
  shows "snd (evaluateWhalePreset st alertId market)
           = (\<exists>outcome \<in> set (outcomes market). volume outcome \<ge> 10000)"
  using assms by (simp add: evaluateWhalePreset_def Let_def list_ex_iff)

theorem whale_first_observation_witness:
  "volumeCache initial_state ''alert-1'' = None \<and> 0 \<le> totalVolume example_market \<and>
   \<not> snd (evaluateWhalePreset initial_state ''alert-1'' example_market) \<and>
   snd (evaluateWhalePreset initial_state ''alert-1'' example_whale_market)"
  using whale_first_observation [of initial_state "''alert-1''" example_market]
        whale_first_observation [of initial_state "''alert-1''" example_whale_market]
  by (simp add: initial_state_def example_market_def example_whale_market_def)

text \<open>The claim as first stated, that the first whale evaluation never triggers, fails: with
  nothing stored for the alert, a snapshot with an outcome of volume 10000 triggers.\<close>

theorem whale_first_observation_counterexample:
  "volumeCache initial_state ''alert-1'' = None \<and>
   snd (evaluateWhalePreset initial_state ''alert-1'' example_whale_market) = True"
  by (simp add: evaluateWhalePreset_def initial_state_def example_whale_market_def)

text \<open>An outcome identifier is never the empty string.\<close>

lemma normalizeOutcome_id: "truthy (Some (outcome_id (normalizeOutcome market index)))"
  by (simp add: normalizeOutcome_def truthy_def Let_def)

text \<open>What \<open>evaluateFlipPreset\<close> returns, with \<open>!x\<close> as JavaScript has it.\<close>

lemma evaluateFlipPreset_truthy:
  "snd (evaluateFlipPreset st alertId market)
     = (truthy (favoriteOutcomeId market) \<and>
        (\<exists>previous. favoriteOutcomeCache st alertId = Some previous \<and> truthy previous \<and>
           favoriteOutcomeId market \<noteq> previous))"
  by (auto simp add: evaluateFlipPreset_def Let_def truthy_def split: option.splits)

text \<open>
  C5. \<open>evaluateFlipPreset\<close> returns true iff the snapshot has a favorite, a favorite was
  stored for the alert before, and the two differ; so the first evaluation of an alert is
  false, and so is an evaluation with the favorite that is stored. Identifiers are non-empty
  strings (\<open>normalizeOutcome_id\<close>); \<open>!x\<close> would take the empty string for absent.
\<close>

theorem evaluateFlipPreset_iff:
  assumes "favoriteOutcomeId market \<noteq> Some []"
    and "favoriteOutcomeCache st alertId \<noteq> Some (Some [])"
  shows "snd (evaluateFlipPreset st alertId market)
           = (\<exists>current previous. favoriteOutcomeId market = Some current \<and>
                favoriteOutcomeCache st alertId = Some (Some previous) \<and> current \<noteq> previous) \<and>
         (favoriteOutcomeCache st alertId = None
            \<longrightarrow> \<not> snd (evaluateFlipPreset st alertId market)) \<and>
         (favoriteOutcomeCache st alertId = Some (favoriteOutcomeId market)
            \<longrightarrow> \<not> snd (evaluateFlipPreset st alertId market))"
  using assms
  by (auto simp add: evaluateFlipPreset_def Let_def truthy_def split: option.splits)

text \<open>First sight of the favorite \<open>m-1\<close> does not trigger; with \<open>m-0\<close> stored it does; with
  \<open>m-1\<close> stored it does not.\<close>

theorem evaluateFlipPreset_iff_witness:
  "\<not> snd (evaluateFlipPreset initial_state ''alert-1'' example_market) \<and>
   snd (evaluateFlipPreset
          (initial_state\<lparr>favoriteOutcomeCache := [''alert-1'' \<mapsto> Some ''m-0'']\<rparr>)
          ''alert-1'' example_market) \<and>
   \<not> snd (evaluateFlipPreset
          (initial_state\<lparr>favoriteOutcomeCache := [''alert-1'' \<mapsto> Some ''m-1'']\<rparr>)
          ''alert-1'' example_market)"
  using evaluateFlipPreset_iff [of example_market initial_state "''alert-1''"]
        evaluateFlipPreset_iff
          [of example_market "initial_state\<lparr>favoriteOutcomeCache := [''alert-1'' \<mapsto> Some ''m-0'']\<rparr>"
              "''alert-1''"]
        evaluateFlipPreset_iff
          [of example_market "initial_state\<lparr>favoriteOutcomeCache := [''alert-1'' \<mapsto> Some ''m-1'']\<rparr>"
              "''alert-1''"]
  by (simp add: initial_state_def example_market_def)

text \<open>
  C6. A whale evaluation stores the snapshot's total volume for the alert, and a flip
  evaluation stores the snapshot's favorite (or \<open>null\<close> when it has none), whatever the
  verdict: afterwards the stored value for the alert is the observation just evaluated.
\<close>

theorem preset_writes_observation:
  "volumeCache (fst (evaluateWhalePreset st alertId market)) alertId = Some (totalVolume market) \<and>
   favoriteOutcomeCache (fst (evaluateFlipPreset st alertId market)) alertId
      = Some (favoriteOutcomeId market)"
  by (simp add: evaluateWhalePreset_def evaluateFlipPreset_def Let_def)

theorem preset_writes_observation_witness:
  "volumeCache (fst (evaluateWhalePreset initial_state ''alert-1'' example_market)) ''alert-1''
      = Some 10 \<and>
   favoriteOutcomeCache (fst (evaluateFlipPreset initial_state ''alert-1'' example_market))
      ''alert-1'' = Some (Some ''m-1'') \<and>
   favoriteOutcomeCache
      (fst (evaluateFlipPreset initial_state ''alert-1''
              (example_market\<lparr>favoriteOutcomeId := None\<rparr>))) ''alert-1'' = Some None"
  using preset_writes_observation [of initial_state "''alert-1''" example_market]
        preset_writes_observation
          [of initial_state "''alert-1''" "example_market\<lparr>favoriteOutcomeId := None\<rparr>"]
  by (simp add: example_market_def)

section \<open>Properties of the authorization\<close>

text \<open>\<open>js_replace\<close> removes the first occurrence of the pattern and nothing else, and leaves
  a string without the pattern alone; \<open>js_trim\<close> strips the white space around a core that
  neither starts nor ends with white space.\<close>

lemma js_replace_absent: "\<not> sublist pat s \<Longrightarrow> js_replace s pat rep = s"
proof (induction s)
  case Nil
  then show ?case by auto
next
  case (Cons c cs)
  then have "\<not> prefix pat (c # cs)" and "\<not> sublist pat cs"
    by (auto simp: sublist_Cons_right)
  with Cons.IH show ?case by simp
qed

lemma prefix_append_short: "prefix p (xs @ ys) \<Longrightarrow> length p \<le> length xs \<Longrightarrow> prefix p xs"
  by (metis prefix_def prefix_length_prefix prefixI)

lemma js_replace_first:
  assumes "\<not> sublist pat (pre @ butlast pat)"
  shows "js_replace (pre @ pat @ post) pat rep = pre @ rep @ post"
  using assms
proof (induction pre)
  case Nil
  then have "pat \<noteq> []" by auto
  then obtain c cs where "pat @ post = c # cs" by (cases pat) auto
  then show ?case using \<open>pat \<noteq> []\<close>
    by (metis append_Nil js_replace.simps(2) prefixI append_eq_conv_conj)
next
  case (Cons a pre)
  have ne: "pat \<noteq> []" using Cons.prems by auto
  have "\<not> prefix pat ((a # pre) @ pat @ post)"
  proof
    assume "prefix pat ((a # pre) @ pat @ post)"
    moreover have "pat @ post = butlast pat @ (last pat # post)"
      using ne by simp
    ultimately have "prefix pat (((a # pre) @ butlast pat) @ (last pat # post))"
      by simp
    moreover have "length pat \<le> length ((a # pre) @ butlast pat)" by simp
    ultimately have "prefix pat ((a # pre) @ butlast pat)" by (rule prefix_append_short)
    then show False using Cons.prems by (auto simp del: append_Cons)
  qed
  moreover have "\<not> sublist pat (pre @ butlast pat)"
    using Cons.prems by (auto simp: sublist_Cons_right)
  ultimately show ?case using Cons.IH by simp
qed

lemma js_trim_core:
  assumes "\<forall>c \<in> set ws1. js_whitespace c" and "\<forall>c \<in> set ws2. js_whitespace c"
    and "core = [] \<or> (\<not> js_whitespace (hd core) \<and> \<not> js_whitespace (last core))"
  shows "js_trim (ws1 @ core @ ws2) = core"
proof (cases "core = []")
  case True
  have "dropWhile js_whitespace (ws1 @ ws2) = []"
    using assms(1,2) by (auto simp: dropWhile_eq_Nil_conv)
  then show ?thesis
    unfolding js_trim_def True by (simp only: append_Nil rev.simps dropWhile.simps)
next
  case False
  with assms(3) have h: "\<not> js_whitespace (hd core)" and l: "\<not> js_whitespace (last core)" by auto
  have "dropWhile js_whitespace (ws1 @ core @ ws2) = core @ ws2"
    using assms(1) False h by (cases core) (auto simp: dropWhile_append3 dropWhile_append)
  moreover have "dropWhile js_whitespace (rev ws2 @ rev core) = rev core"
    using assms(2) False l by (cases core rule: rev_cases) (auto simp: dropWhile_append)
  ultimately show ?thesis by (simp add: js_trim_def)
qed

lemma js_trim_clean:
  "s \<noteq> [] \<Longrightarrow> \<not> js_whitespace (hd s) \<Longrightarrow> \<not> js_whitespace (last s) \<Longrightarrow> js_trim s = s"
  using js_trim_core [of "[]" "[]" s] by simp

text \<open>
  C10. With a secret configured, \<open>isCronAuthorized\<close> returns true exactly when there is an
  authorization header and the header, with the first occurrence of \<open>'Bearer '\<close> removed and
  then trimmed, equals the secret. So for a secret that trimming leaves as it is, the header
  \<open>'Bearer '\<close> followed by the secret is accepted, and so is the bare secret (when it does
  not itself contain \<open>'Bearer '\<close>).
\<close>

theorem isCronAuthorized_iff:
  assumes "CRON_SECRET env = Some expected" and "expected \<noteq> []"
  shows "isCronAuthorized env req
           = Inr (\<exists>h. authorization req = Some h \<and> js_trim (js_replace h ''Bearer '' []) = expected)
       \<and> (\<not> js_whitespace (hd expected) \<and> \<not> js_whitespace (last expected) \<and>
          \<not> sublist ''Bearer '' expected \<and> authorization req = Some expected
            \<longrightarrow> isCronAuthorized env req = Inr True)
       \<and> (\<not> js_whitespace (hd expected) \<and> \<not> js_whitespace (last expected) \<and>
          authorization req = Some (''Bearer '' @ expected)
            \<longrightarrow> isCronAuthorized env req = Inr True)"
proof -
  have main: "isCronAuthorized env req
           = Inr (\<exists>h. authorization req = Some h \<and> js_trim (js_replace h ''Bearer '' []) = expected)"
    using assms by (cases "authorization req") (auto simp: isCronAuthorized_def truthy_def Let_def)
  have raw: "js_trim (js_replace expected ''Bearer '' []) = expected"
    if "\<not> js_whitespace (hd expected)" "\<not> js_whitespace (last expected)"
       "\<not> sublist ''Bearer '' expected"
    using that assms(2) by (simp add: js_replace_absent js_trim_clean)
  have "js_replace (''Bearer '' @ expected) ''Bearer '' [] = expected"
    using js_replace_first [of "''Bearer ''" "[]" expected "[]"] by (simp add: sublist_Cons_right)
  then have bearer: "js_trim (js_replace (''Bearer '' @ expected) ''Bearer '' []) = expected"
    if "\<not> js_whitespace (hd expected)" "\<not> js_whitespace (last expected)"
    using that assms(2) by (simp add: js_trim_clean)
  show ?thesis using main raw bearer by auto
qed

text \<open>With the secret \<open>s3cret\<close>: the bare secret and the bearer form pass, also with white
  space around; another token and a missing header do not.\<close>

theorem isCronAuthorized_iff_witness:
  "isCronAuthorized (example_env [] (Inr None) (Inr None) None)
      \<lparr>authorization = Some ''s3cret''\<rparr> = Inr True \<and>
   isCronAuthorized (example_env [] (Inr None) (Inr None) None)
      \<lparr>authorization = Some ''Bearer s3cret''\<rparr> = Inr True \<and>
   isCronAuthorized (example_env [] (Inr None) (Inr None) None)
      \<lparr>authorization = Some ''  Bearer s3cret ''\<rparr> = Inr True \<and>
   isCronAuthorized (example_env [] (Inr None) (Inr None) None)
      \<lparr>authorization = Some ''Bearer other''\<rparr> = Inr False \<and>
   isCronAuthorized (example_env [] (Inr None) (Inr None) None)
      \<lparr>authorization = None\<rparr> = Inr False"
  using isCronAuthorized_iff
          [of "example_env [] (Inr None) (Inr None) None" "''s3cret''"
              "\<lparr>authorization = Some ''s3cret''\<rparr>"]
        isCronAuthorized_iff
          [of "example_env [] (Inr None) (Inr None) None" "''s3cret''"
              "\<lparr>authorization = Some ''Bearer s3cret''\<rparr>"]
        isCronAuthorized_iff
          [of "example_env [] (Inr None) (Inr None) None" "''s3cret''"
              "\<lparr>authorization = Some ''  Bearer s3cret ''\<rparr>"]
        isCronAuthorized_iff
          [of "example_env [] (Inr None) (Inr None) None" "''s3cret''"
              "\<lparr>authorization = Some ''Bearer other''\<rparr>"]
        isCronAuthorized_iff
          [of "example_env [] (Inr None) (Inr None) None" "''s3cret''"
              "\<lparr>authorization = None\<rparr>"]
  by (simp add: example_env_def js_trim_def js_whitespace_def sublist_Cons_right)

text \<open>
  C9. With a secret configured, a request whose header is missing, or whose header with
  \<open>'Bearer '\<close> removed and trimmed is not the secret, is answered \<open>UNAUTHORIZED\<close>, and the
  state afterwards is the state before: no map has changed and no call has been made (no
  database query, market fetch, user lookup, mail, timestamp update or log line).
\<close>

theorem POST_unauthorized:
  assumes "CRON_SECRET env = Some expected" and "expected \<noteq> []"
    and "\<forall>h. authorization req = Some h \<longrightarrow> js_trim (js_replace h ''Bearer '' []) \<noteq> expected"
  shows "POST env st req = (st, Inr UNAUTHORIZED)"
  using assms
  by (cases "authorization req") (auto simp: POST_def isCronAuthorized_def truthy_def Let_def)

theorem POST_unauthorized_witness:
  "POST (example_env [example_alert (Some (example_rule ''OR''))] (Inr None) (Inr None)
           (Some ''u@example.org''))
     initial_state \<lparr>authorization = None\<rparr> = (initial_state, Inr UNAUTHORIZED) \<and>
   POST (example_env [example_alert (Some (example_rule ''OR''))] (Inr None) (Inr None)
           (Some ''u@example.org''))
     initial_state \<lparr>authorization = Some ''Bearer other''\<rparr> = (initial_state, Inr UNAUTHORIZED)"
  using POST_unauthorized
          [of "example_env [example_alert (Some (example_rule ''OR''))] (Inr None) (Inr None)
                 (Some ''u@example.org'')" "''s3cret''" "\<lparr>authorization = None\<rparr>" initial_state]
        POST_unauthorized
          [of "example_env [example_alert (Some (example_rule ''OR''))] (Inr None) (Inr None)
                 (Some ''u@example.org'')" "''s3cret''" "\<lparr>authorization = Some ''Bearer other''\<rparr>"
              initial_state]
  by (simp add: example_env_def js_trim_def js_whitespace_def)

section \<open>Properties of the batch orchestrator\<close>

text \<open>The loop over a list that is split in two, and the fields each helper leaves alone.\<close>

lemma alertLoop_append:
  "alertLoop env (before @ rest) st p =
     (case alertLoop env before st p of
        (st', Inl e) \<Rightarrow> (st', Inl e)
      | (st', Inr p') \<Rightarrow> alertLoop env rest st' p')"
  by (induction before arbitrary: st p) (auto split: prod.splits sum.splits)

lemma fetchMarket_traces:
  "fetchMarket env st k = (st', r) \<Longrightarrow>
     sendCalls st' = sendCalls st \<and> updateCalls st' = updateCalls st \<and>
     selectCalls st' = selectCalls st \<and> consoleErrors st' = consoleErrors st"
  by (auto simp: fetchMarket_def Let_def split: option.splits)

lemma evaluateAlert_traces:
  "evaluateAlert st alert market = (st', b) \<Longrightarrow>
     sendCalls st' = sendCalls st \<and> updateCalls st' = updateCalls st \<and>
     selectCalls st' = selectCalls st \<and> consoleErrors st' = consoleErrors st \<and>
     marketCalls st' = marketCalls st \<and> userCalls st' = userCalls st \<and>
     marketCache st' = marketCache st \<and> userEmailCache st' = userEmailCache st"
  by (auto simp: evaluateAlert_def evaluateWhalePreset_def evaluateFlipPreset_def Let_def
           split: option.splits if_splits)

lemma resolveUserEmail_traces:
  "resolveUserEmail env st k = (st', r) \<Longrightarrow>
     sendCalls st' = sendCalls st \<and> updateCalls st' = updateCalls st \<and>
     selectCalls st' = selectCalls st"
  by (auto simp: resolveUserEmail_def Let_def split: option.splits sum.splits)

lemma resolveUserEmail_address_log:
  "resolveUserEmail env st k = (st', Inr (Some address)) \<Longrightarrow> consoleErrors st' = consoleErrors st"
  by (auto simp: resolveUserEmail_def Let_def split: option.splits sum.splits)

text \<open>
  C7. When the loop reaches an alert whose market is fetched, whose evaluation triggers and
  whose recipient resolves to \<open>null\<close> (or to an empty address), the turn ends in
  \<open>continue\<close>: no mail call and no timestamp update is made, the count stays, and the loop
  goes on with the alerts that remain.
\<close>

theorem recipient_none_skips:
  assumes "alertLoop env before st0 p0 = (st, Inr processed)"
    and "fetchMarket env st (market_slug alert) = (st1, Inr market)"
    and "evaluateAlert st1 alert market = (st2, True)"
    and "resolveUserEmail env st2 (user_id alert) = (st3, Inr recipient)"
    and "\<not> truthy recipient"
  shows "processAlert env st alert = (st3, Inr False) \<and>
         sendCalls st3 = sendCalls st \<and> updateCalls st3 = updateCalls st \<and>
         alertLoop env (before @ alert # rest) st0 p0 = alertLoop env rest st3 processed"
proof -
  have p: "processAlert env st alert = (st3, Inr False)"
    using assms(2-5) by (simp add: processAlert_def)
  have "sendCalls st3 = sendCalls st \<and> updateCalls st3 = updateCalls st"
    using fetchMarket_traces [OF assms(2)] evaluateAlert_traces [OF assms(3)]
      resolveUserEmail_traces [OF assms(4)] by simp
  moreover have "alertLoop env (before @ alert # rest) st0 p0 = alertLoop env rest st3 processed"
    using assms(1) p by (simp add: alertLoop_append)
  ultimately show ?thesis using p by simp
qed

text \<open>A triggering alert whose owner has no address: nothing is sent, nothing is updated,
  nothing is counted.\<close>

theorem recipient_none_skips_witness:
  "snd (alertLoop (example_env [] (Inr None) (Inr None) None)
          [example_alert (Some (example_rule ''OR''))] initial_state 0) = Inr 0 \<and>
   sendCalls (fst (alertLoop (example_env [] (Inr None) (Inr None) None)
          [example_alert (Some (example_rule ''OR''))] initial_state 0)) = [] \<and>
   updateCalls (fst (alertLoop (example_env [] (Inr None) (Inr None) None)
          [example_alert (Some (example_rule ''OR''))] initial_state 0)) = []"
proof -
  let ?env = "example_env [] (Inr None) (Inr None) None"
  let ?a = "example_alert (Some (example_rule ''OR''))"
  let ?st1 = "fst (fetchMarket ?env initial_state (market_slug ?a))"
  let ?st3 = "fst (resolveUserEmail ?env ?st1 (user_id ?a))"
  have h1: "alertLoop ?env [] initial_state 0 = (initial_state, Inr 0)"
    by simp
  have h2: "fetchMarket ?env initial_state (market_slug ?a) = (?st1, Inr example_market)"
    by (simp add: fetchMarket_def Let_def example_defs)
  have h3: "evaluateAlert ?st1 ?a example_market = (?st1, True)"
    by (simp add: evaluateAlert_def evaluateCustomRule_def evaluateCondition_def
          metricValue_def fetchMarket_def fetchActiveAlerts_def Let_def example_defs)
  have h4: "resolveUserEmail ?env ?st1 (user_id ?a) = (?st3, Inr None)"
    by (simp add: resolveUserEmail_def fetchMarket_def Let_def example_defs)
  have h5: "\<not> truthy None"
    by (simp add: truthy_def)
  from recipient_none_skips [OF h1 h2 h3 h4 h5, of "[]"]
  have "alertLoop ?env [?a] initial_state 0 = (?st3, Inr 0)"
    and "sendCalls ?st3 = sendCalls initial_state"
    and "updateCalls ?st3 = updateCalls initial_state"
    by simp_all
  then show ?thesis by (simp add: initial_state_def)
qed

text \<open>
  C2 (amended). Take a run that is authorized and has loaded its alerts, at an alert whose
  evaluation triggers and whose recipient is known. If the timestamp update resolves with an
  error, the error is logged, the alert counts as processed, the loop goes on and, when the
  remaining alerts go through, the answer is \<open>success\<close>. Whatever the mail client resolves
  to, an error included, is ignored: when the timestamp update then resolves without error,
  the turn logs nothing, the alert counts as processed, the loop goes on and, when the
  remaining alerts go through, the answer is \<open>success\<close>. If the mail call or the timestamp
  update rejects, nothing in the loop catches it: the remaining alerts are not visited, the
  exception is logged by the outer \<open>catch\<close> and the answer is \<open>CRON_FAILED\<close>.
\<close>

theorem dispatch_persistence_failures:
  assumes "isCronAuthorized env req = Inr True"
    and "fetchActiveAlerts env s = (st0, Inr (before @ alert # rest))"
    and "alertLoop env before st0 0 = (st, Inr processed)"
    and "fetchMarket env st (market_slug alert) = (st1, Inr market)"
    and "evaluateAlert st1 alert market = (st2, True)"
    and "resolveUserEmail env st2 (user_id alert) = (st3, Inr (Some recipient))"
    and "recipient \<noteq> []"
    and "mail = emailMessage env alert market (Some recipient)"
    and "sent = emailsSend env (length (sendCalls st3)) mail"
    and "updated = alertsUpdate env (length (updateCalls st3)) (alert_id alert)"
    and "st4 = st3\<lparr>sendCalls := sendCalls st3 @ [mail]\<rparr>"
    and "st5 = st4\<lparr>updateCalls := updateCalls st3 @ [alert_id alert]\<rparr>"
  shows "(\<forall>e. sent = Inl e \<longrightarrow>
            POST env s req = (st4\<lparr>consoleErrors := consoleErrors st3 @ [[e]]\<rparr>, Inr CRON_FAILED)) \<and>
         (\<forall>e. \<not> isl sent \<and> updated = Inl e \<longrightarrow>
            POST env s req = (st5\<lparr>consoleErrors := consoleErrors st3 @ [[e]]\<rparr>, Inr CRON_FAILED)) \<and>
         (\<forall>err. \<not> isl sent \<and> updated = Inr (Some err) \<longrightarrow>
            alertLoop env (before @ alert # rest) st0 0 =
            alertLoop env rest
              (st5\<lparr>consoleErrors := consoleErrors st3 @
                      [[''Failed to update alert trigger timestamp'', err]]\<rparr>)
              (processed + 1)) \<and>
         (\<forall>err st6 n. \<not> isl sent \<and> updated = Inr (Some err) \<and>
            alertLoop env rest
              (st5\<lparr>consoleErrors := consoleErrors st3 @
                      [[''Failed to update alert trigger timestamp'', err]]\<rparr>)
              (processed + 1) = (st6, Inr n) \<longrightarrow>
            POST env s req = (st6, Inr (success n))) \<and>
         (\<forall>answer. sent = Inr answer \<and> updated = Inr None \<longrightarrow>
            consoleErrors st5 = consoleErrors st \<and>
            alertLoop env (before @ alert # rest) st0 0 =
            alertLoop env rest st5 (processed + 1)) \<and>
         (\<forall>answer st6 n. sent = Inr answer \<and> updated = Inr None \<and>
            alertLoop env rest st5 (processed + 1) = (st6, Inr n) \<longrightarrow>
            POST env s req = (st6, Inr (success n)))"
proof -
  have loop: "alertLoop env (before @ alert # rest) st0 0 =
     (case processAlert env st alert of
        (st', Inl e) \<Rightarrow> (st', Inl e)
      | (st', Inr counted) \<Rightarrow>
          alertLoop env rest st' (if counted then processed + 1 else processed))"
    using assms(3) by (simp add: alertLoop_append)
  have post: "POST env s req =
     (case alertLoop env (before @ alert # rest) st0 0 of
        (st2, Inl e) \<Rightarrow> (st2\<lparr>consoleErrors := consoleErrors st2 @ [[e]]\<rparr>, Inr CRON_FAILED)
      | (st2, Inr processed) \<Rightarrow> (st2, Inr (success processed)))"
    using assms(1,2) by (simp add: POST_def)
  have turn: "processAlert env st alert =
     (case sendEmail env st3 mail of
        (st4, Inl e) \<Rightarrow> (st4, Inl e)
      | (st4, Inr _) \<Rightarrow>
          (case markAlertTriggered env st4 (alert_id alert) of
             (st5, Inl e) \<Rightarrow> (st5, Inl e)
           | (st5, Inr _) \<Rightarrow> (st5, Inr True)))"
    using assms(4-8) by (simp add: processAlert_def truthy_def)
  have send: "sendEmail env st3 mail = (st4, case sent of Inl e \<Rightarrow> Inl e | Inr _ \<Rightarrow> Inr ())"
    using assms(9,11) by (simp add: sendEmail_def)
  have mark: "markAlertTriggered env st4 (alert_id alert) =
     (case updated of
        Inl e \<Rightarrow> (st5, Inl e)
      | Inr None \<Rightarrow> (st5, Inr ())
      | Inr (Some err) \<Rightarrow>
          (st5\<lparr>consoleErrors := consoleErrors st3 @
                  [[''Failed to update alert trigger timestamp'', err]]\<rparr>, Inr ()))"
    using assms(10-12) by (simp add: markAlertTriggered_def Let_def split: sum.splits option.splits)
  have errs: "consoleErrors st4 = consoleErrors st3" "consoleErrors st5 = consoleErrors st3"
    using assms(11,12) by simp_all
  have a: "POST env s req = (st4\<lparr>consoleErrors := consoleErrors st3 @ [[e]]\<rparr>, Inr CRON_FAILED)"
    if "sent = Inl e" for e
  proof -
    have "processAlert env st alert = (st4, Inl e)"
      using that by (simp add: turn send)
    then show ?thesis by (simp add: post loop errs)
  qed
  have sent_ok: "sendEmail env st3 mail = (st4, Inr ())" if "\<not> isl sent"
    using that by (cases sent) (simp_all add: send)
  have b: "POST env s req = (st5\<lparr>consoleErrors := consoleErrors st3 @ [[e]]\<rparr>, Inr CRON_FAILED)"
    if "\<not> isl sent" "updated = Inl e" for e
  proof -
    have "markAlertTriggered env st4 (alert_id alert) = (st5, Inl e)"
      using that(2) by (simp add: mark)
    then have "processAlert env st alert = (st5, Inl e)"
      by (simp add: turn sent_ok [OF that(1)])
    then show ?thesis by (simp add: post loop errs)
  qed
  have c: "alertLoop env (before @ alert # rest) st0 0 =
           alertLoop env rest
              (st5\<lparr>consoleErrors := consoleErrors st3 @
                      [[''Failed to update alert trigger timestamp'', err]]\<rparr>)
              (processed + 1)"
    if "\<not> isl sent" "updated = Inr (Some err)" for err
  proof -
    have "markAlertTriggered env st4 (alert_id alert) =
            (st5\<lparr>consoleErrors := consoleErrors st3 @
                      [[''Failed to update alert trigger timestamp'', err]]\<rparr>, Inr ())"
      using that(2) by (simp add: mark)
    then have "processAlert env st alert =
            (st5\<lparr>consoleErrors := consoleErrors st3 @
                      [[''Failed to update alert trigger timestamp'', err]]\<rparr>, Inr True)"
      by (simp add: turn sent_ok [OF that(1)])
    then show ?thesis by (simp add: loop)
  qed
  have d: "POST env s req = (st6, Inr (success n))"
    if "\<not> isl sent" "updated = Inr (Some err)"
      "alertLoop env rest
              (st5\<lparr>consoleErrors := consoleErrors st3 @
                      [[''Failed to update alert trigger timestamp'', err]]\<rparr>)
              (processed + 1) = (st6, Inr n)" for err st6 n
    using c [OF that(1,2)] that(3) by (simp add: post)
  have quiet: "consoleErrors st5 = consoleErrors st"
    using errs(2) resolveUserEmail_address_log [OF assms(6)] evaluateAlert_traces [OF assms(5)]
      fetchMarket_traces [OF assms(4)] by simp
  have f: "alertLoop env (before @ alert # rest) st0 0 = alertLoop env rest st5 (processed + 1)"
    if "sent = Inr answer" "updated = Inr None" for answer
  proof -
    have "\<not> isl sent" using that(1) by simp
    moreover have "markAlertTriggered env st4 (alert_id alert) = (st5, Inr ())"
      using that(2) by (simp add: mark)
    ultimately have "processAlert env st alert = (st5, Inr True)"
      by (simp add: turn sent_ok)
    then show ?thesis by (simp add: loop)
  qed
  have g: "POST env s req = (st6, Inr (success n))"
    if "sent = Inr answer" "updated = Inr None"
      "alertLoop env rest st5 (processed + 1) = (st6, Inr n)" for answer st6 n
    using f [OF that(1,2)] that(3) by (simp add: post)
  show ?thesis using a b c d quiet f g by blast
qed

text \<open>One triggering alert. When the mail goes out and the timestamp update answers with an
  error, the run ends in \<open>success\<close> with one alert processed and the error in the log. When
  the mail client answers with an error and the timestamp update goes through, the run ends
  in \<open>success\<close> with one alert processed and an empty log.\<close>

theorem dispatch_persistence_failures_witness:
  "snd (POST (example_env [example_alert (Some (example_rule ''OR''))] (Inr None)
               (Inr (Some ''db down'')) (Some ''u@example.org''))
          initial_state example_request) = Inr (success 1) \<and>
   consoleErrors (fst (POST (example_env [example_alert (Some (example_rule ''OR''))] (Inr None)
               (Inr (Some ''db down'')) (Some ''u@example.org''))
          initial_state example_request))
     = [[''Failed to update alert trigger timestamp'', ''db down'']] \<and>
   snd (POST (example_env [example_alert (Some (example_rule ''OR''))]
               (Inr (Some ''rejected by provider'')) (Inr None) (Some ''u@example.org''))
          initial_state example_request) = Inr (success 1) \<and>
   consoleErrors (fst (POST (example_env [example_alert (Some (example_rule ''OR''))]
               (Inr (Some ''rejected by provider'')) (Inr None) (Some ''u@example.org''))
          initial_state example_request)) = []"
proof -
  let ?a = "example_alert (Some (example_rule ''OR''))"
  let ?env = "\<lambda>snt upd. example_env [?a] snt upd (Some ''u@example.org'')"
  let ?st0 = "\<lambda>snt upd. fst (fetchActiveAlerts (?env snt upd) initial_state)"
  let ?st1 = "\<lambda>snt upd. fst (fetchMarket (?env snt upd) (?st0 snt upd) (market_slug ?a))"
  let ?st3 = "\<lambda>snt upd. fst (resolveUserEmail (?env snt upd) (?st1 snt upd) (user_id ?a))"
  let ?mail = "\<lambda>snt upd. emailMessage (?env snt upd) ?a example_market (Some ''u@example.org'')"
  let ?st5 = "\<lambda>snt upd. (?st3 snt upd)\<lparr>sendCalls := sendCalls (?st3 snt upd) @ [?mail snt upd]\<rparr>
                \<lparr>updateCalls := updateCalls (?st3 snt upd) @ [alert_id ?a]\<rparr>"
  have h1: "isCronAuthorized (?env snt upd) example_request = Inr True" for snt upd
    by (simp add: isCronAuthorized_def truthy_def js_trim_def js_whitespace_def
          example_env_def example_request_def)
  have h2: "fetchActiveAlerts (?env snt upd) initial_state = (?st0 snt upd, Inr ([] @ ?a # []))"
    for snt upd
    by (simp add: fetchActiveAlerts_def example_env_def)
  have h3: "alertLoop (?env snt upd) [] (?st0 snt upd) 0 = (?st0 snt upd, Inr 0)" for snt upd
    by simp
  have h4: "fetchMarket (?env snt upd) (?st0 snt upd) (market_slug ?a)
              = (?st1 snt upd, Inr example_market)" for snt upd
    by (simp add: fetchMarket_def fetchActiveAlerts_def Let_def example_defs)
  have h5: "evaluateAlert (?st1 snt upd) ?a example_market = (?st1 snt upd, True)" for snt upd
    by (simp add: evaluateAlert_def evaluateCustomRule_def evaluateCondition_def
          metricValue_def fetchMarket_def fetchActiveAlerts_def Let_def example_defs)
  have h6: "resolveUserEmail (?env snt upd) (?st1 snt upd) (user_id ?a)
              = (?st3 snt upd, Inr (Some ''u@example.org''))" for snt upd
    by (simp add: resolveUserEmail_def fetchMarket_def fetchActiveAlerts_def Let_def example_defs)
  have h7: "''u@example.org'' \<noteq> []"
    by simp
  have sent: "emailsSend (?env snt upd) (length (sendCalls (?st3 snt upd))) (?mail snt upd) = snt"
    for snt upd
    by (simp add: example_env_def)
  have updated: "alertsUpdate (?env snt upd) (length (updateCalls (?st3 snt upd))) (alert_id ?a) = upd"
    for snt upd
    by (simp add: example_env_def)
  have quiet: "consoleErrors (?st3 snt upd) = []" "consoleErrors (?st0 snt upd) = []" for snt upd
    by (simp_all add: resolveUserEmail_def fetchMarket_def fetchActiveAlerts_def Let_def
          example_defs)
  note t = dispatch_persistence_failures [OF h1 h2 h3 h4 h5 h6 h7 refl refl refl refl refl]
  let ?st6 = "(?st5 (Inr None) (Inr (Some ''db down'')))
                \<lparr>consoleErrors := consoleErrors (?st3 (Inr None) (Inr (Some ''db down''))) @
                   [[''Failed to update alert trigger timestamp'', ''db down'']]\<rparr>"
  have "alertLoop (?env (Inr None) (Inr (Some ''db down''))) [] ?st6 (0 + 1) = (?st6, Inr 1)"
    by simp
  with t [of "Inr None" "Inr (Some ''db down'')"]
    sent [of "Inr None" "Inr (Some ''db down'')"] updated [of "Inr None" "Inr (Some ''db down'')"]
  have logged: "POST (?env (Inr None) (Inr (Some ''db down''))) initial_state example_request
                  = (?st6, Inr (success 1))"
    by (simp del: alertLoop.simps)
  let ?st7 = "?st5 (Inr (Some ''rejected by provider'')) (Inr None)"
  have "alertLoop (?env (Inr (Some ''rejected by provider'')) (Inr None)) [] ?st7 (0 + 1)
          = (?st7, Inr 1)"
    by simp
  with t [of "Inr (Some ''rejected by provider'')" "Inr None"]
    sent [of "Inr (Some ''rejected by provider'')" "Inr None"]
    updated [of "Inr (Some ''rejected by provider'')" "Inr None"]
  have silent: "POST (?env (Inr (Some ''rejected by provider'')) (Inr None)) initial_state
                  example_request = (?st7, Inr (success 1))"
    by (simp del: alertLoop.simps)
  show ?thesis using logged silent quiet by simp
qed

text \<open>The claim as first stated fails for the mail dispatch. Two triggering alerts, and the
  mail call rejects on the first: the answer is \<open>CRON_FAILED\<close> and the second alert is never
  reached (one mail call, no timestamp update). When the mail client instead resolves with
  an error, the run goes on, but nothing is logged.\<close>

theorem dispatch_rejection_counterexample:
  "snd (POST (example_env [example_alert (Some (example_rule ''OR'')),
                           example_alert (Some (example_rule ''OR''))]
               (Inl ''boom'') (Inr None) (Some ''u@example.org''))
          initial_state example_request) = Inr CRON_FAILED \<and>
   length (sendCalls (fst (POST (example_env [example_alert (Some (example_rule ''OR'')),
                           example_alert (Some (example_rule ''OR''))]
               (Inl ''boom'') (Inr None) (Some ''u@example.org''))
          initial_state example_request))) = 1 \<and>
   updateCalls (fst (POST (example_env [example_alert (Some (example_rule ''OR'')),
                           example_alert (Some (example_rule ''OR''))]
               (Inl ''boom'') (Inr None) (Some ''u@example.org''))
          initial_state example_request)) = [] \<and>
   snd (POST (example_env [example_alert (Some (example_rule ''OR'')),
                           example_alert (Some (example_rule ''OR''))]
               (Inr (Some ''rejected by provider'')) (Inr None) (Some ''u@example.org''))
          initial_state example_request) = Inr (success 2) \<and>
   consoleErrors (fst (POST (example_env [example_alert (Some (example_rule ''OR'')),
                           example_alert (Some (example_rule ''OR''))]
               (Inr (Some ''rejected by provider'')) (Inr None) (Some ''u@example.org''))
          initial_state example_request)) = []"
  by (simp add: POST_def isCronAuthorized_def js_trim_def js_whitespace_def
        fetchActiveAlerts_def processAlert_def fetchMarket_def evaluateAlert_def
        evaluateCustomRule_def evaluateCondition_def metricValue_def resolveUserEmail_def
        sendEmail_def markAlertTriggered_def emailMessage_def truthy_def Let_def example_defs)

section \<open>Properties of the two caches\<close>

text \<open>One lookup: the key is in the cache afterwards with the result returned, entries
  already there stay, and the collaborator is called exactly when the key was not there.\<close>

lemma fetchMarket_step:
  assumes "fetchMarket env st k = (st', r)"
  shows "marketCache st' k = Some r"
    and "marketCache st \<subseteq>\<^sub>m marketCache st'"
    and "userEmailCache st' = userEmailCache st"
    and "userCalls st' = userCalls st"
    and "marketCalls st' = marketCalls st @ (if k \<in> dom (marketCache st) then [] else [k])"
    and "dom (marketCache st') = insert k (dom (marketCache st))"
  using assms
  by (auto simp: fetchMarket_def Let_def map_le_def split: option.splits)

lemma resolveUserEmail_step:
  assumes "resolveUserEmail env st k = (st', r)"
  shows "userEmailCache st' k = Some r"
    and "userEmailCache st \<subseteq>\<^sub>m userEmailCache st'"
    and "marketCache st' = marketCache st"
    and "marketCalls st' = marketCalls st"
    and "userCalls st' = userCalls st @ (if k \<in> dom (userEmailCache st) then [] else [k])"
    and "dom (userEmailCache st') = insert k (dom (userEmailCache st))"
  using assms
  by (auto simp: resolveUserEmail_def Let_def map_le_def split: option.splits sum.splits)

text \<open>A sequence of lookups, unfolded at its first element.\<close>

lemma lookups_Fetch:
  assumes "lookups env (Fetch k # rest) st = (st', rs)"
  obtains st1 r rs1 where "fetchMarket env st k = (st1, r)" "lookups env rest st1 = (st', rs1)"
    "rs = Market r # rs1"
  using assms by (auto split: prod.splits)

lemma lookups_Resolve:
  assumes "lookups env (Resolve k # rest) st = (st', rs)"
  obtains st1 r rs1 where "resolveUserEmail env st k = (st1, r)" "lookups env rest st1 = (st', rs1)"
    "rs = Recipient r # rs1"
  using assms by (auto split: prod.splits)

lemma lookups_mono:
  "lookups env ops st = (st', rs) \<Longrightarrow>
     marketCache st \<subseteq>\<^sub>m marketCache st' \<and> userEmailCache st \<subseteq>\<^sub>m userEmailCache st'"
proof (induction ops arbitrary: st st' rs)
  case Nil
  then show ?case by simp
next
  case (Cons op rest)
  show ?case
  proof (cases op)
    case (Fetch k)
    from Cons.prems obtain st1 r rs1 where f: "fetchMarket env st k = (st1, r)"
      and l: "lookups env rest st1 = (st', rs1)" unfolding Fetch by (blast elim: lookups_Fetch)
    from fetchMarket_step(2,3) [OF f] Cons.IH [OF l] show ?thesis
      by (metis map_le_trans)
  next
    case (Resolve k)
    from Cons.prems obtain st1 r rs1 where f: "resolveUserEmail env st k = (st1, r)"
      and l: "lookups env rest st1 = (st', rs1)" unfolding Resolve by (blast elim: lookups_Resolve)
    from resolveUserEmail_step(2,3) [OF f] Cons.IH [OF l] show ?thesis
      by (metis map_le_trans)
  qed
qed

lemma lookups_length: "lookups env ops st = (st', rs) \<Longrightarrow> length rs = length ops"
proof (induction ops arbitrary: st st' rs)
  case Nil
  then show ?case by simp
next
  case (Cons op rest)
  show ?case
  proof (cases op)
    case (Fetch k)
    from Cons.prems obtain st1 r rs1 where "lookups env rest st1 = (st', rs1)"
      and "rs = Market r # rs1" unfolding Fetch by (blast elim: lookups_Fetch)
    with Cons.IH show ?thesis by force
  next
    case (Resolve k)
    from Cons.prems obtain st1 r rs1 where "lookups env rest st1 = (st', rs1)"
      and "rs = Recipient r # rs1" unfolding Resolve by (blast elim: lookups_Resolve)
    with Cons.IH show ?thesis by force
  qed
qed

lemma lookups_result_market:
  "lookups env ops st = (st', rs) \<Longrightarrow> i < length ops \<Longrightarrow> ops ! i = Fetch k \<Longrightarrow>
     \<exists>r. marketCache st' k = Some r \<and> rs ! i = Market r"
proof (induction ops arbitrary: st st' rs i)
  case Nil
  then show ?case by simp
next
  case (Cons op rest)
  show ?case
  proof (cases i)
    case 0
    with Cons.prems have op: "op = Fetch k" by simp
    from Cons.prems(1) obtain st1 r rs1 where f: "fetchMarket env st k = (st1, r)"
      and l: "lookups env rest st1 = (st', rs1)" and rs: "rs = Market r # rs1"
      unfolding op by (blast elim: lookups_Fetch)
    have "marketCache st1 k = Some r" by (rule fetchMarket_step(1) [OF f])
    moreover have "marketCache st1 \<subseteq>\<^sub>m marketCache st'" using lookups_mono [OF l] by simp
    ultimately have "marketCache st' k = Some r" by (metis domI map_le_def)
    with rs 0 show ?thesis by simp
  next
    case (Suc j)
    with Cons.prems have j: "j < length rest" "rest ! j = Fetch k" by simp_all
    show ?thesis
    proof (cases op)
      case (Fetch k')
      from Cons.prems(1) obtain st1 r rs1 where l: "lookups env rest st1 = (st', rs1)"
        and rs: "rs = Market r # rs1" unfolding Fetch by (blast elim: lookups_Fetch)
      from Cons.IH [OF l j] rs Suc show ?thesis by simp
    next
      case (Resolve k')
      from Cons.prems(1) obtain st1 r rs1 where l: "lookups env rest st1 = (st', rs1)"
        and rs: "rs = Recipient r # rs1" unfolding Resolve by (blast elim: lookups_Resolve)
      from Cons.IH [OF l j] rs Suc show ?thesis by simp
    qed
  qed
qed

lemma lookups_result_recipient:
  "lookups env ops st = (st', rs) \<Longrightarrow> i < length ops \<Longrightarrow> ops ! i = Resolve k \<Longrightarrow>
     \<exists>r. userEmailCache st' k = Some r \<and> rs ! i = Recipient r"
proof (induction ops arbitrary: st st' rs i)
  case Nil
  then show ?case by simp
next
  case (Cons op rest)
  show ?case
  proof (cases i)
    case 0
    with Cons.prems have op: "op = Resolve k" by simp
    from Cons.prems(1) obtain st1 r rs1 where f: "resolveUserEmail env st k = (st1, r)"
      and l: "lookups env rest st1 = (st', rs1)" and rs: "rs = Recipient r # rs1"
      unfolding op by (blast elim: lookups_Resolve)
    have "userEmailCache st1 k = Some r" by (rule resolveUserEmail_step(1) [OF f])
    moreover have "userEmailCache st1 \<subseteq>\<^sub>m userEmailCache st'" using lookups_mono [OF l] by simp
    ultimately have "userEmailCache st' k = Some r" by (metis domI map_le_def)
    with rs 0 show ?thesis by simp
  next
    case (Suc j)
    with Cons.prems have j: "j < length rest" "rest ! j = Resolve k" by simp_all
    show ?thesis
    proof (cases op)
      case (Fetch k')
      from Cons.prems(1) obtain st1 r rs1 where l: "lookups env rest st1 = (st', rs1)"
        and rs: "rs = Market r # rs1" unfolding Fetch by (blast elim: lookups_Fetch)
      from Cons.IH [OF l j] rs Suc show ?thesis by simp
    next
      case (Resolve k')
      from Cons.prems(1) obtain st1 r rs1 where l: "lookups env rest st1 = (st', rs1)"
        and rs: "rs = Recipient r # rs1" unfolding Resolve by (blast elim: lookups_Resolve)
      from Cons.IH [OF l j] rs Suc show ?thesis by simp
    qed
  qed
qed

text \<open>\<open>memo_step\<close> is reflexive and transitive, every helper of the handler makes such a step,
  and so do the loop, the handler and a sequence of lookups.\<close>

lemma fresh_refl: "fresh calls cache calls cache"
  by (simp add: fresh_def)

lemma fresh_append:
  "distinct new \<Longrightarrow> set new \<inter> dom cache = {} \<Longrightarrow> dom cache' = dom cache \<union> set new \<Longrightarrow>
     fresh calls cache (calls @ new) cache'"
  by (simp add: fresh_def)

lemma fresh_trans:
  assumes "fresh c1 m1 c2 m2" and "fresh c2 m2 c3 m3"
  shows "fresh c1 m1 c3 m3"
proof -
  define n1 where "n1 = drop (length c1) c2"
  define n2 where "n2 = drop (length c2) c3"
  have c2: "c2 = c1 @ n1" using assms(1) unfolding fresh_def n1_def
    by (metis append_take_drop_id)
  have c3: "c3 = c2 @ n2" using assms(2) unfolding fresh_def n2_def
    by (metis append_take_drop_id)
  have a: "distinct n1" "set n1 \<inter> dom m1 = {}" "dom m2 = dom m1 \<union> set n1"
    using assms(1) unfolding fresh_def n1_def by simp_all
  have b: "distinct n2" "set n2 \<inter> dom m2 = {}" "dom m3 = dom m2 \<union> set n2"
    using assms(2) unfolding fresh_def n2_def by simp_all
  have "c3 = c1 @ (n1 @ n2)" using c2 c3 by simp
  moreover have "distinct (n1 @ n2)" using a b by auto
  moreover have "set (n1 @ n2) \<inter> dom m1 = {}" using a b by auto
  moreover have "dom m3 = dom m1 \<union> set (n1 @ n2)" using a b by auto
  ultimately show ?thesis using fresh_append by blast
qed

lemma memo_step_refl: "memo_step st st"
  by (simp add: memo_step_def fresh_refl)

lemma memo_step_trans: "memo_step a b \<Longrightarrow> memo_step b c \<Longrightarrow> memo_step a c"
  unfolding memo_step_def by (blast intro: fresh_trans)

lemma memo_step_same:
  "marketCalls st' = marketCalls st \<Longrightarrow> marketCache st' = marketCache st \<Longrightarrow>
   userCalls st' = userCalls st \<Longrightarrow> userEmailCache st' = userEmailCache st \<Longrightarrow>
     memo_step st st'"
  by (simp add: memo_step_def fresh_refl)

lemma fetchMarket_memo: "fetchMarket env st k = (st', r) \<Longrightarrow> memo_step st st'"
  by (auto simp: fetchMarket_def Let_def memo_step_def fresh_def split: option.splits)

lemma resolveUserEmail_memo: "resolveUserEmail env st k = (st', r) \<Longrightarrow> memo_step st st'"
  by (auto simp: resolveUserEmail_def Let_def memo_step_def fresh_def
           split: option.splits sum.splits)

lemma evaluateAlert_memo: "evaluateAlert st alert market = (st', b) \<Longrightarrow> memo_step st st'"
  using evaluateAlert_traces [of st alert market st' b] by (simp add: memo_step_same)

lemma sendEmail_memo: "sendEmail env st mail = (st', r) \<Longrightarrow> memo_step st st'"
  by (auto simp: sendEmail_def intro: memo_step_same)

lemma markAlertTriggered_memo: "markAlertTriggered env st k = (st', r) \<Longrightarrow> memo_step st st'"
  by (auto simp: markAlertTriggered_def Let_def intro!: memo_step_same
           split: sum.splits option.splits)

lemma processAlert_memo:
  assumes "processAlert env st alert = (st', r)"
  shows "memo_step st st'"
proof -
  obtain st1 r1 where f: "fetchMarket env st (market_slug alert) = (st1, r1)"
    by (cases "fetchMarket env st (market_slug alert)")
  note m1 = fetchMarket_memo [OF f]
  show ?thesis
  proof (cases r1)
    case (Inl e)
    with assms f m1 show ?thesis by (simp add: processAlert_def)
  next
    case (Inr market)
    obtain st2 b where e: "evaluateAlert st1 alert market = (st2, b)"
      by (cases "evaluateAlert st1 alert market")
    note m2 = memo_step_trans [OF m1 evaluateAlert_memo [OF e]]
    show ?thesis
    proof (cases b)
      case False
      with assms f Inr e m2 show ?thesis by (simp add: processAlert_def)
    next
      case True
      obtain st3 r3 where u: "resolveUserEmail env st2 (user_id alert) = (st3, r3)"
        by (cases "resolveUserEmail env st2 (user_id alert)")
      note m3 = memo_step_trans [OF m2 resolveUserEmail_memo [OF u]]
      show ?thesis
      proof (cases r3)
        case (Inl e3)
        with assms f Inr e True u m3 show ?thesis by (simp add: processAlert_def)
      next
        case r: (Inr recipient)
        show ?thesis
        proof (cases "truthy recipient")
          case False
          with assms f Inr e True u r m3 show ?thesis by (simp add: processAlert_def)
        next
          case t: True
          obtain st4 r4 where s: "sendEmail env st3 (emailMessage env alert market recipient) = (st4, r4)"
            by (cases "sendEmail env st3 (emailMessage env alert market recipient)")
          note m4 = memo_step_trans [OF m3 sendEmail_memo [OF s]]
          obtain st5 r5 where k: "markAlertTriggered env st4 (alert_id alert) = (st5, r5)"
            by (cases "markAlertTriggered env st4 (alert_id alert)")
          note m5 = memo_step_trans [OF m4 markAlertTriggered_memo [OF k]]
          from assms f Inr e True u r t s k have "st' = st4 \<or> st' = st5"
            by (auto simp: processAlert_def split: sum.splits)
          with m4 m5 show ?thesis by blast
        qed
      qed
    qed
  qed
qed

lemma alertLoop_memo: "alertLoop env alerts st p = (st', r) \<Longrightarrow> memo_step st st'"
proof (induction alerts arbitrary: st p)
  case Nil
  then show ?case by (simp add: memo_step_refl)
next
  case (Cons alert rest)
  obtain st1 r1 where pa: "processAlert env st alert = (st1, r1)"
    by (cases "processAlert env st alert")
  note m1 = processAlert_memo [OF pa]
  show ?case
  proof (cases r1)
    case (Inl e)
    with Cons.prems pa m1 show ?thesis by simp
  next
    case (Inr counted)
    with Cons.prems pa
    have "alertLoop env rest st1 (if counted then p + 1 else p) = (st', r)" by simp
    from memo_step_trans [OF m1 Cons.IH [OF this]] show ?thesis .
  qed
qed

lemma POST_memo: "memo_step st (fst (POST env st req))"
proof (cases "isCronAuthorized env req")
  case (Inl e)
  then show ?thesis by (simp add: POST_def memo_step_refl)
next
  case (Inr ok)
  have log: "memo_step a (b\<lparr>consoleErrors := l\<rparr>)" if "memo_step a b" for a b l
    using that by (simp add: memo_step_def)
  show ?thesis
  proof (cases ok)
    case False
    with Inr show ?thesis by (simp add: POST_def memo_step_refl)
  next
    case True
    obtain st1 r1 where f: "fetchActiveAlerts env st = (st1, r1)"
      by (cases "fetchActiveAlerts env st")
    then have m1: "memo_step st st1"
      by (auto simp: fetchActiveAlerts_def intro: memo_step_same)
    show ?thesis
    proof (cases r1)
      case (Inl e)
      with Inr True f show ?thesis by (simp add: POST_def log [OF m1])
    next
      case rows: (Inr alerts)
      obtain st2 r2 where l: "alertLoop env alerts st1 0 = (st2, r2)"
        by (cases "alertLoop env alerts st1 0")
      have m2: "memo_step st st2"
        by (rule memo_step_trans [OF m1 alertLoop_memo [OF l]])
      from Inr True f rows l m1 m2 log [OF m2] show ?thesis
        by (cases r2) (simp_all add: POST_def)
    qed
  qed
qed

lemma lookups_memo: "lookups env ops st = (st', rs) \<Longrightarrow> memo_step st st'"
proof (induction ops arbitrary: st st' rs)
  case Nil
  then show ?case by (simp add: memo_step_refl)
next
  case (Cons op rest)
  show ?case
  proof (cases op)
    case (Fetch k)
    from Cons.prems obtain st1 r rs1 where f: "fetchMarket env st k = (st1, r)"
      and l: "lookups env rest st1 = (st', rs1)" unfolding Fetch by (blast elim: lookups_Fetch)
    from memo_step_trans [OF fetchMarket_memo [OF f] Cons.IH [OF l]] show ?thesis .
  next
    case (Resolve k)
    from Cons.prems obtain st1 r rs1 where f: "resolveUserEmail env st k = (st1, r)"
      and l: "lookups env rest st1 = (st', rs1)" unfolding Resolve by (blast elim: lookups_Resolve)
    from memo_step_trans [OF resolveUserEmail_memo [OF f] Cons.IH [OF l]] show ?thesis .
  qed
qed

text \<open>
  C8. From any state of the caches, for every sequence of market fetches and recipient
  resolutions and for every run of the handler: the calls made to the market-data
  collaborator are pairwise distinct and none is for an identifier that was already cached,
  likewise the calls to the user directory; and two lookups of the same key return the same
  result, rejected ones included, whatever the collaborator would have answered the second
  time.
\<close>

theorem lookups_memoized:
  "memo_step st (fst (lookups env ops st)) \<and>
   length (snd (lookups env ops st)) = length ops \<and>
   (\<forall>i j. i < length ops \<and> j < length ops \<and> ops ! i = ops ! j \<longrightarrow>
      snd (lookups env ops st) ! i = snd (lookups env ops st) ! j) \<and>
   memo_step st (fst (POST env st req))"
proof -
  obtain st' rs where l: "lookups env ops st = (st', rs)" by (cases "lookups env ops st")
  have same: "rs ! i = rs ! j" if "i < length ops" "j < length ops" "ops ! i = ops ! j" for i j
  proof (cases "ops ! i")
    case (Fetch k)
    from lookups_result_market [OF l that(1) Fetch]
      lookups_result_market [OF l that(2) Fetch [unfolded that(3)]]
    show ?thesis by auto
  next
    case (Resolve k)
    from lookups_result_recipient [OF l that(1) Resolve]
      lookups_result_recipient [OF l that(2) Resolve [unfolded that(3)]]
    show ?thesis by auto
  qed
  from lookups_memo [OF l] lookups_length [OF l] same POST_memo [of st env req]
  show ?thesis unfolding l by simp
qed

text \<open>Five lookups on the freshly loaded module: two market calls and one directory call
  are made; the second fetch of \<open>m\<close> returns what the first did, although the collaborator
  would report another volume by then, as it does for \<open>n\<close>. A run over two alerts on the
  same market and of the same user makes one call to each collaborator.\<close>

theorem lookups_memoized_witness:
  "marketCalls (fst (lookups (example_env [] (Inr None) (Inr None) (Some ''u@example.org''))
      example_lookups initial_state)) = [''m'', ''n''] \<and>
   userCalls (fst (lookups (example_env [] (Inr None) (Inr None) (Some ''u@example.org''))
      example_lookups initial_state)) = [''user-1''] \<and>
   snd (lookups (example_env [] (Inr None) (Inr None) (Some ''u@example.org''))
      example_lookups initial_state) ! 2 =
   snd (lookups (example_env [] (Inr None) (Inr None) (Some ''u@example.org''))
      example_lookups initial_state) ! 0 \<and>
   snd (lookups (example_env [] (Inr None) (Inr None) (Some ''u@example.org''))
      example_lookups initial_state) ! 3 \<noteq>
   snd (lookups (example_env [] (Inr None) (Inr None) (Some ''u@example.org''))
      example_lookups initial_state) ! 0 \<and>
   distinct (marketCalls (fst (POST (example_env [example_alert (Some (example_rule ''OR'')),
                           example_alert (Some (example_rule ''OR''))]
               (Inr None) (Inr None) (Some ''u@example.org''))
          initial_state example_request)))"
  using lookups_memoized
          [where env = "example_env [] (Inr None) (Inr None) (Some ''u@example.org'')"
             and ops = example_lookups and st = initial_state]
        lookups_memoized
          [where env = "example_env [example_alert (Some (example_rule ''OR'')),
                           example_alert (Some (example_rule ''OR''))]
               (Inr None) (Inr None) (Some ''u@example.org'')"
             and ops = "[]" and st = initial_state and req = example_request]
  by (simp add: example_lookups_def example_env_def initial_state_def example_market_def
        fetchMarket_def resolveUserEmail_def Let_def memo_step_def fresh_def)

end
